theory Spec2Isabelle
  imports Complex_Main
begin

section \<open>Errors\<close>

text \<open>
  Modelled from the spec: the exception classes of \<^verbatim>\<open>ollama_local_serve/exceptions.py\<close>,
  which \<^verbatim>\<open>service.py\<close> imports (\<^verbatim>\<open>ServiceStartError\<close>, \<^verbatim>\<open>ServiceStopError\<close>,
  \<^verbatim>\<open>ConnectionError\<close>, \<^verbatim>\<open>HealthCheckError\<close>). The spec's taxonomy lists them as four kinds
  and calls the Connection error "distinguished from a generic Health-check error", so they
  are four distinct constructors and none is a subclass of another; every one is an
  \<^verbatim>\<open>Exception\<close>. \<^verbatim>\<open>ValueError\<close>, \<^verbatim>\<open>IndexError\<close>, \<^verbatim>\<open>TypeError\<close> and \<^verbatim>\<open>OverflowError\<close> are Python's own, and \<^verbatim>\<open>BackendError\<close> stands for
  whatever a storage driver raises. Messages are left out.
\<close>

datatype error =
    ServiceStartError
  | ServiceStopError
  | ConnectionError
  | HealthCheckError
  | ValueError
  | IndexError
  | TypeError
  | OverflowError
  | BackendError

section \<open>Connection Config (\<^verbatim>\<open>config.py\<close>)\<close>

text \<open>
  A field value handed to the dataclass constructor: an instance of \<^verbatim>\<open>int\<close>, or anything
  else (a string, a float, \<^verbatim>\<open>None\<close>), for which \<^verbatim>\<open>isinstance(v, int)\<close> is false.
\<close>

datatype pyval = IntV int | NonIntV

record NetworkConfig =
  host :: string
  port :: int
  timeout :: int
  max_retries :: int

text \<open>
  \<^verbatim>\<open>NetworkConfig(host, port, timeout, max_retries)\<close>: the generated constructor stores the
  fields and runs \<^verbatim>\<open>__post_init__\<close>, whose three checks run in this order and raise
  \<^verbatim>\<open>ValueError\<close>.
\<close>

definition NetworkConfig_init :: "string \<Rightarrow> pyval \<Rightarrow> pyval \<Rightarrow> pyval \<Rightarrow> error + NetworkConfig" where
  "NetworkConfig_init h p t r =
     (case p of
        NonIntV \<Rightarrow> Inl ValueError
      | IntV pv \<Rightarrow>
          if \<not> (1 \<le> pv \<and> pv \<le> 65535) then Inl ValueError
          else (case t of
             NonIntV \<Rightarrow> Inl ValueError
           | IntV tv \<Rightarrow>
               if tv \<le> 0 then Inl ValueError
               else (case r of
                  NonIntV \<Rightarrow> Inl ValueError
                | IntV rv \<Rightarrow>
                    if rv < 0 then Inl ValueError
                    else Inr \<lparr>host = h, port = pv, timeout = tv, max_retries = rv\<rparr>)))"

text \<open>The dataclass defaults: host 0.0.0.0, port 11434, timeout 30, three retries.\<close>

definition default_config :: NetworkConfig where
  "default_config = \<lparr>host = ''0.0.0.0'', port = 11434, timeout = 30, max_retries = 3\<rparr>"

section \<open>Availability prober (\<^verbatim>\<open>OllamaService.health_check\<close>)\<close>

text \<open>
  What one GET of \<^verbatim>\<open>/api/tags\<close> under \<^verbatim>\<open>ClientTimeout(total=config.timeout)\<close> does: it answers
  with a status code; or it raises an \<^verbatim>\<open>aiohttp.ClientError\<close> (connection refused, name not
  resolved); or the total timeout expires, which raises \<^verbatim>\<open>asyncio.TimeoutError\<close>, not an
  \<^verbatim>\<open>aiohttp.ClientError\<close>; or it raises some other \<^verbatim>\<open>Exception\<close>. The prober is a function from
  the attempt number to the outcome of that attempt.
\<close>

datatype probe_outcome = Status int | ClientError | Timeout | OtherError


text \<open>The effects of the supervisor and the prober, in the order they happen.\<close>

datatype event =
    Probe int
  | Sleep real
  | Spawn
  | Poll
  | Kill
  | Terminate
  | ForceKill
  | Wait
  | LogDebug
  | LogInfo
  | LogWarning
  | LogError

text \<open>
  The body of \<^verbatim>\<open>for attempt in range(max_retries + 1)\<close>, on the attempts still to run; the
  empty list is the statement after the loop.
\<close>

fun hc_loop :: "(int \<Rightarrow> probe_outcome) \<Rightarrow> int \<Rightarrow> int list \<Rightarrow> (error + bool) \<times> event list" where
  "hc_loop probe mr [] = (Inl HealthCheckError, [])"
| "hc_loop probe mr (attempt # rest) =
     (case probe attempt of
        Status c \<Rightarrow>
          if c = 200 then (Inr True, [Probe attempt, LogDebug])
          else (let (res, tr) = hc_loop probe mr rest
                in (res, [Probe attempt, LogWarning] @ tr))
      | ClientError \<Rightarrow>
          if attempt < mr
          then (let (res, tr) = hc_loop probe mr rest
                in (res, [Probe attempt, LogDebug, Sleep 1] @ tr))
          else (Inl ConnectionError, [Probe attempt, LogDebug])
      | Timeout \<Rightarrow> (Inl HealthCheckError, [Probe attempt, LogError])
      | OtherError \<Rightarrow> (Inl HealthCheckError, [Probe attempt, LogError]))"

definition health_check ::
  "NetworkConfig \<Rightarrow> int option \<Rightarrow> (int \<Rightarrow> probe_outcome) \<Rightarrow> (error + bool) \<times> event list" where
  "health_check config retries probe =
     (let mr = (case retries of Some r \<Rightarrow> r | None \<Rightarrow> max_retries config)
      in hc_loop probe mr [0..mr])"






section \<open>Process supervisor (\<^verbatim>\<open>OllamaService.start\<close>, \<^verbatim>\<open>OllamaService.stop\<close>)\<close>

text \<open>
  The supervisor object. \<open>process\<close> is the field \<^verbatim>\<open>_process\<close> (the \<^verbatim>\<open>Popen\<close> handle, here
  the pid it holds, \<open>None\<close> when there is none) and \<open>is_running\<close> is \<^verbatim>\<open>_is_running\<close>.
\<close>

record OllamaService =
  config :: NetworkConfig
  ollama_binary :: string
  process :: "nat option"
  is_running :: bool

text \<open>\<^verbatim>\<open>OllamaService(config, ollama_binary)\<close>: no handle, not running.\<close>

definition OllamaService_init :: "NetworkConfig option \<Rightarrow> string \<Rightarrow> OllamaService" where
  "OllamaService_init cfg binary =
     \<lparr>config = (case cfg of Some c \<Rightarrow> c | None \<Rightarrow> default_config),
      ollama_binary = binary, process = None, is_running = False\<rparr>"

text \<open>
  What the operating system does when the supervisor calls it. \<^verbatim>\<open>Popen\<close> returns a handle,
  raises \<^verbatim>\<open>FileNotFoundError\<close> or raises another exception; \<^verbatim>\<open>poll()\<close> after the start-up
  delay returns \<^verbatim>\<open>None\<close> for a live process and its exit code otherwise; the GET of the
  health endpoint is the prober above. For \<^verbatim>\<open>stop\<close>: whether delivering the termination
  signal works or raises, how the bounded \<^verbatim>\<open>wait\<close> ends, whether delivering the kill signal
  works, and whether the unbounded \<^verbatim>\<open>wait\<close> returns or raises.
\<close>

datatype spawn_outcome = Spawned nat | SpawnFileNotFound | SpawnFailed

datatype wait_outcome = Exited | TimedOut | WaitFailed

record os =
  popen :: spawn_outcome
  poll :: "int option"
  http_get :: "int \<Rightarrow> probe_outcome"
  sigterm_ok :: bool
  wait_graceful :: wait_outcome
  sigkill_ok :: bool
  wait_forced_ok :: bool

text \<open>
  The handler \<^verbatim>\<open>except Exception\<close> of \<^verbatim>\<open>start\<close>: log, kill the process if there is a handle
  (an exception of \<^verbatim>\<open>kill\<close> is swallowed), clear the handle, raise \<^verbatim>\<open>ServiceStartError\<close>.
  \<open>tr\<close> is the trace up to the exception.
\<close>

definition start_failed ::
  "OllamaService \<Rightarrow> event list \<Rightarrow> (error + unit) \<times> OllamaService \<times> event list" where
  "start_failed s tr =
     (Inl ServiceStartError, s\<lparr>process := None\<rparr>,
      tr @ [LogError] @ (if process s \<noteq> None then [Kill] else []))"

definition start ::
  "OllamaService \<Rightarrow> real \<Rightarrow> os \<Rightarrow> (error + unit) \<times> OllamaService \<times> event list" where
  "start s startup_delay w =
     (if is_running s then (Inr (), s, [LogWarning])
      else
        (case popen w of
           SpawnFileNotFound \<Rightarrow> (Inl ServiceStartError, s, [LogInfo, Spawn])
         | SpawnFailed \<Rightarrow> start_failed s [LogInfo, Spawn]
         | Spawned p \<Rightarrow>
             (let s1 = s\<lparr>process := Some p\<rparr>;
                  tr1 = [LogInfo, Spawn, Sleep startup_delay, Poll]
              in case poll w of
                   Some code \<Rightarrow> start_failed s1 tr1
                 | None \<Rightarrow>
                     (case health_check (config s1) None (http_get w) of
                        (Inr healthy, tr2) \<Rightarrow>
                          (Inr (), s1\<lparr>is_running := True\<rparr>, tr1 @ tr2 @ [LogInfo])
                      | (Inl HealthCheckError, tr2) \<Rightarrow>
                          (Inr (), s1\<lparr>is_running := True\<rparr>, tr1 @ tr2 @ [LogWarning])
                      | (Inl e, tr2) \<Rightarrow> start_failed s1 (tr1 @ tr2)))))"

definition stop ::
  "OllamaService \<Rightarrow> real \<Rightarrow> os \<Rightarrow> (error + unit) \<times> OllamaService \<times> event list" where
  "stop s stop_timeout w =
     (if \<not> is_running s \<or> process s = None then (Inr (), s, [LogWarning])
      else if \<not> sigterm_ok w
        then (Inl ServiceStopError, s, [LogInfo, Terminate, LogError])
      else
        (case wait_graceful w of
           Exited \<Rightarrow>
             (Inr (), s\<lparr>is_running := False, process := None\<rparr>,
              [LogInfo, Terminate, Wait, LogInfo])
         | WaitFailed \<Rightarrow>
             (Inl ServiceStopError, s, [LogInfo, Terminate, Wait, LogError])
         | TimedOut \<Rightarrow>
             if \<not> sigkill_ok w
               then (Inl ServiceStopError, s,
                     [LogInfo, Terminate, Wait, LogWarning, ForceKill, LogError])
             else if \<not> wait_forced_ok w
               then (Inl ServiceStopError, s,
                     [LogInfo, Terminate, Wait, LogWarning, ForceKill, Wait, LogError])
             else (Inr (), s\<lparr>is_running := False, process := None\<rparr>,
                   [LogInfo, Terminate, Wait, LogWarning, ForceKill, Wait, LogInfo])))"

text \<open>
  The signalling and wait sequence of \<^verbatim>\<open>stop\<close> raises: the termination signal cannot be
  delivered, or the bounded wait raises something other than its timeout, or after the
  timeout the kill signal or the final wait raises.
\<close>

definition stop_sequence_raises :: "os \<Rightarrow> bool" where
  "stop_sequence_raises w =
     (\<not> sigterm_ok w \<or> wait_graceful w = WaitFailed
      \<or> (wait_graceful w = TimedOut \<and> (\<not> sigkill_ok w \<or> \<not> wait_forced_ok w)))"

text \<open>Concrete inputs: a supervisor that runs process 4242, and operating systems.\<close>

definition running_service :: OllamaService where
  "running_service =
     \<lparr>config = default_config, ollama_binary = ''ollama'', process = Some 4242,
      is_running = True\<rparr>"

definition os_unreachable :: os where
  "os_unreachable =
     \<lparr>popen = Spawned 4242, poll = None, http_get = (\<lambda>i. ClientError), sigterm_ok = True,
      wait_graceful = Exited, sigkill_ok = True, wait_forced_ok = True\<rparr>"

definition os_unhealthy :: os where
  "os_unhealthy =
     \<lparr>popen = Spawned 4242, poll = None, http_get = (\<lambda>i. Status 503), sigterm_ok = True,
      wait_graceful = Exited, sigkill_ok = True, wait_forced_ok = True\<rparr>"

definition os_process_gone :: os where
  "os_process_gone =
     \<lparr>popen = Spawned 4242, poll = None, http_get = (\<lambda>i. Status 200), sigterm_ok = False,
      wait_graceful = Exited, sigkill_ok = True, wait_forced_ok = True\<rparr>"

section \<open>Backend query router (\<^verbatim>\<open>api/dependencies.py\<close>)\<close>

subsection \<open>Values and exceptions\<close>

text \<open>
  A Python \<^verbatim>\<open>float\<close>: a finite value, here a real number without rounding, or NaN, or an
  infinity. A numeric value as a driver hands it out is a Python \<^verbatim>\<open>int\<close>, or a \<^verbatim>\<open>float\<close> or
  \<^verbatim>\<open>Decimal\<close>, which has the same three kinds of values. A nullable numeric column is a
  \<open>number option\<close>. A column that the code passes on untouched is a \<open>dbval\<close>. Timestamps
  are whole seconds.
\<close>

datatype pyfloat = Finite real | NaN | PosInf | NegInf

datatype number = IntN int | FloatN pyfloat

datatype dbval = Null | Num number | Text string | Time int

text \<open>
  \<^verbatim>\<open>x or 0\<close>: \<^verbatim>\<open>None\<close> and a zero are falsy and give the integer 0; NaN and the infinities
  are truthy.
\<close>

fun or_zero :: "number option \<Rightarrow> number" where
  "or_zero None = IntN 0"
| "or_zero (Some (IntN i)) = (if i = 0 then IntN 0 else IntN i)"
| "or_zero (Some (FloatN (Finite r))) = (if r = 0 then IntN 0 else FloatN (Finite r))"
| "or_zero (Some (FloatN f)) = FloatN f"

text \<open>
  \<^verbatim>\<open>int(x)\<close> truncates towards zero, and raises \<^verbatim>\<open>ValueError\<close> on NaN and \<^verbatim>\<open>OverflowError\<close> on an
  infinity.
\<close>

fun py_int :: "number \<Rightarrow> error + int" where
  "py_int (IntN i) = Inr i"
| "py_int (FloatN (Finite r)) = Inr (if 0 \<le> r then \<lfloor>r\<rfloor> else \<lceil>r\<rceil>)"
| "py_int (FloatN NaN) = Inl ValueError"
| "py_int (FloatN f) = Inl OverflowError"

text \<open>
  The least magnitude of an \<^verbatim>\<open>int\<close> that rounds beyond the largest float; \<^verbatim>\<open>float(x)\<close> raises
  \<^verbatim>\<open>OverflowError\<close> on such an \<^verbatim>\<open>int\<close> and returns a float as it is.
\<close>

definition float_overflow :: real where
  "float_overflow = 2 ^ 1024 - 2 ^ 970"

fun py_float :: "number \<Rightarrow> error + pyfloat" where
  "py_float (IntN i) =
     (if \<bar>of_int i\<bar> < float_overflow then Inr (Finite (of_int i)) else Inl OverflowError)"
| "py_float (FloatN f) = Inr f"

text \<open>
  \<^verbatim>\<open>x / 3600\<close>: the true division of an \<^verbatim>\<open>int\<close> raises \<^verbatim>\<open>OverflowError\<close> when the quotient is
  beyond the floats; NaN and the infinities stay what they are.
\<close>

fun div_3600 :: "number \<Rightarrow> error + number" where
  "div_3600 (IntN i) =
     (if \<bar>of_int i / 3600\<bar> < float_overflow then Inr (FloatN (Finite (of_int i / 3600)))
      else Inl OverflowError)"
| "div_3600 (FloatN (Finite r)) = Inr (FloatN (Finite (r / 3600)))"
| "div_3600 (FloatN f) = Inr (FloatN f)"

text \<open>
  \<^verbatim>\<open>try: body  except Exception as e: handler\<close>: every error of the model is an \<^verbatim>\<open>Exception\<close>.
  \<open>bind_result\<close> runs the next statement when the one before it did not raise, and
  \<open>map_result\<close> is a list comprehension whose element expression can raise.
\<close>

definition try_except :: "error + 'a \<Rightarrow> (error \<Rightarrow> error + 'a) \<Rightarrow> error + 'a" where
  "try_except body handler = (case body of Inl e \<Rightarrow> handler e | Inr v \<Rightarrow> Inr v)"

definition bind_result :: "error + 'a \<Rightarrow> ('a \<Rightarrow> error + 'b) \<Rightarrow> error + 'b" where
  "bind_result r f = (case r of Inl e \<Rightarrow> Inl e | Inr v \<Rightarrow> f v)"

fun map_result :: "('a \<Rightarrow> error + 'b) \<Rightarrow> 'a list \<Rightarrow> error + 'b list" where
  "map_result f [] = Inr []"
| "map_result f (x # xs) =
     bind_result (f x) (\<lambda>y. bind_result (map_result f xs) (\<lambda>ys. Inr (y # ys)))"

text \<open>
  \<^verbatim>\<open>rows[0]\<close> on the list a ClickHouse \<^verbatim>\<open>execute\<close> returns; \<^verbatim>\<open>result.fetchone()\<close> followed by a
  subscript (\<^verbatim>\<open>fetchone\<close> gives \<^verbatim>\<open>None\<close> on no row, and the subscript raises \<^verbatim>\<open>TypeError\<close>);
  \<^verbatim>\<open>result.scalar()\<close>, the first column of the first row or \<^verbatim>\<open>None\<close>.
\<close>

definition subscript0 :: "'a list \<Rightarrow> error + 'a" where
  "subscript0 rows = (case rows of [] \<Rightarrow> Inl IndexError | r # rest \<Rightarrow> Inr r)"

definition fetchone :: "'a list \<Rightarrow> error + 'a" where
  "fetchone rows = (case rows of [] \<Rightarrow> Inl TypeError | r # rest \<Rightarrow> Inr r)"

definition scalar :: "'a list \<Rightarrow> 'a option" where
  "scalar rows = (case rows of [] \<Rightarrow> None | r # rest \<Rightarrow> Some r)"

subsection \<open>Query results\<close>

text \<open>
  The dictionaries the router returns, with the keys of the source; the keys of a history
  point carry the prefix \<open>hp_\<close>, of a log entry \<open>log_\<close>, of a model aggregate \<open>ms_\<close>,
  because \<^verbatim>\<open>timestamp\<close>, \<^verbatim>\<open>tokens_total\<close>, \<^verbatim>\<open>error_count\<close> and \<^verbatim>\<open>avg_latency_ms\<close> occur in several.
\<close>

record stats =
  tokens_total :: int
  tokens_per_sec :: pyfloat
  uptime_hours :: pyfloat
  error_count :: int
  request_count :: int
  avg_latency_ms :: pyfloat
  models_available :: int
  timestamp :: real

record history_point =
  hp_timestamp :: int
  hp_tokens_total :: int
  hp_latency_ms :: pyfloat
  hp_throughput :: pyfloat
  hp_error_count :: int

record log_entry =
  log_request_id :: dbval
  log_timestamp :: dbval
  log_model :: dbval
  log_tokens :: dbval
  log_latency :: dbval
  log_status :: dbval
  log_error_message :: dbval

record logs_page =
  total :: int
  logs :: "log_entry list"

record model_stats =
  ms_model_name :: dbval
  ms_requests_count :: dbval
  ms_tokens_generated :: dbval
  ms_avg_latency_ms :: pyfloat
  ms_error_count :: dbval
  ms_last_used :: dbval

subsection \<open>Backends\<close>

text \<open>
  The rows of the result sets, by the select list of each query: the totals query selects
  four aggregates; a history row is the bucket time and four aggregates; a log row and a
  model row are passed on column by column.
\<close>

type_synonym totals_row = "number option \<times> number option \<times> number option \<times> number option"

type_synonym history_row =
  "int \<times> number option \<times> number option \<times> number option \<times> number option"

type_synonym log_row = "dbval \<times> dbval \<times> dbval \<times> dbval \<times> dbval \<times> dbval \<times> dbval"

type_synonym model_row = "dbval \<times> dbval \<times> dbval \<times> number option \<times> dbval \<times> dbval"

text \<open>
  A live ClickHouse client: what \<^verbatim>\<open>execute\<close> does on each query of the source, rows or an
  exception. The history query is built from the hours and the granularity in minutes; the
  log queries from the filters that are set, the limit and the offset.
\<close>

record clickhouse_client =
  ch_totals :: "error + totals_row list"
  ch_tps :: "error + number option list"
  ch_uptime :: "error + number option list"
  ch_history :: "int \<Rightarrow> int \<Rightarrow> error + history_row list"
  ch_count :: "string option \<Rightarrow> string option \<Rightarrow> error + int list"
  ch_logs :: "string option \<Rightarrow> string option \<Rightarrow> int \<Rightarrow> int \<Rightarrow> error + log_row list"
  ch_model_stats :: "error + model_row list"

text \<open>A session of the relational backend: what \<^verbatim>\<open>session.execute\<close> does on each query.\<close>

record postgres_session =
  pg_totals :: "error + totals_row list"
  pg_tps :: "error + number option list"
  pg_history :: "int \<Rightarrow> int \<Rightarrow> error + history_row list"
  pg_count :: "string option \<Rightarrow> string option \<Rightarrow> error + int list"
  pg_logs :: "string option \<Rightarrow> string option \<Rightarrow> int \<Rightarrow> int \<Rightarrow> error + log_row list"
  pg_model_stats :: "error + model_row list"

text \<open>
  The manager. \<open>exporter_type\<close> is \<^verbatim>\<open>config.exporter_type\<close> (the other fields of the
  configuration are read by \<^verbatim>\<open>connect\<close> only); \<open>clickhouse_client\<close> is \<^verbatim>\<open>_clickhouse_client\<close>;
  \<open>postgres_session_factory\<close> is \<^verbatim>\<open>_postgres_session_factory\<close>, and calling the factory and
  entering the session gives a session or raises; \<open>start_time\<close> is \<^verbatim>\<open>_start_time\<close>, in
  seconds.
\<close>

record DatabaseManager =
  exporter_type :: string
  clickhouse_client :: "clickhouse_client option"
  postgres_session_factory :: "(error + postgres_session) option"
  connected :: bool
  start_time :: real

text \<open>\<^verbatim>\<open>DatabaseManager(config)\<close> at time \<open>now\<close>: nothing is connected.\<close>

definition DatabaseManager_init :: "string \<Rightarrow> real \<Rightarrow> DatabaseManager" where
  "DatabaseManager_init etype now =
     \<lparr>exporter_type = etype, clickhouse_client = None, postgres_session_factory = None,
      connected = False, start_time = now\<rparr>"

text \<open>
  The test \<^verbatim>\<open>config.exporter_type in ("clickhouse", "both") and self._clickhouse_client\<close>
  of the four query methods: the client to use, if any.
\<close>

definition use_clickhouse :: "DatabaseManager \<Rightarrow> clickhouse_client option" where
  "use_clickhouse m =
     (if exporter_type m = ''clickhouse'' \<or> exporter_type m = ''both''
      then clickhouse_client m else None)"

subsection \<open>Current stats\<close>

text \<open>
  \<open>clock\<close> gives the readings of \<^verbatim>\<open>datetime.utcnow()\<close> from the current point of the call
  on, in seconds, in the order they are taken; \<open>later\<close> is the clock after one reading.
  \<^verbatim>\<open>uptime_seconds\<close> takes one reading.
\<close>

definition later :: "(nat \<Rightarrow> real) \<Rightarrow> (nat \<Rightarrow> real)" where
  "later clock = (\<lambda>n. clock (Suc n))"

definition uptime_seconds :: "DatabaseManager \<Rightarrow> real \<Rightarrow> real" where
  "uptime_seconds m now = now - start_time m"

definition get_empty_stats :: "DatabaseManager \<Rightarrow> (nat \<Rightarrow> real) \<Rightarrow> stats" where
  "get_empty_stats m clock =
     \<lparr>tokens_total = 0, tokens_per_sec = Finite 0,
      uptime_hours = Finite (uptime_seconds m (clock 0) / 3600),
      error_count = 0, request_count = 0, avg_latency_ms = Finite 0, models_available = 0,
      timestamp = clock 1\<rparr>"

text \<open>
  The \<^verbatim>\<open>try\<close> block of \<^verbatim>\<open>_get_current_stats_clickhouse\<close>: the three queries, then the
  dictionary, whose entries are evaluated in the order of the source. The clock is read
  for the last entry, after every conversion.
\<close>

definition get_current_stats_clickhouse_try ::
  "clickhouse_client \<Rightarrow> (nat \<Rightarrow> real) \<Rightarrow> error + stats" where
  "get_current_stats_clickhouse_try c clock =
     bind_result (ch_totals c) (\<lambda>totals.
     bind_result (ch_tps c) (\<lambda>tps.
     bind_result (ch_uptime c) (\<lambda>uptime.
     bind_result (subscript0 totals) (\<lambda>(t0, t1, t2, t3).
     bind_result (py_int (or_zero t0)) (\<lambda>tokens.
     bind_result (subscript0 tps) (\<lambda>tps0.
     bind_result (py_float (or_zero tps0)) (\<lambda>per_sec.
     bind_result (subscript0 uptime) (\<lambda>uptime0.
     bind_result (div_3600 (or_zero uptime0)) (\<lambda>quotient.
     bind_result (py_float quotient) (\<lambda>hours.
     bind_result (py_int (or_zero t1)) (\<lambda>errors.
     bind_result (py_int (or_zero t2)) (\<lambda>requests.
     bind_result (py_float (or_zero t3)) (\<lambda>latency.
       Inr \<lparr>tokens_total = tokens, tokens_per_sec = per_sec, uptime_hours = hours,
            error_count = errors, request_count = requests, avg_latency_ms = latency,
            models_available = 0, timestamp = clock 0\<rparr>)))))))))))))"

definition get_current_stats_clickhouse ::
  "DatabaseManager \<Rightarrow> clickhouse_client \<Rightarrow> (nat \<Rightarrow> real) \<Rightarrow> error + stats" where
  "get_current_stats_clickhouse m c clock =
     try_except (get_current_stats_clickhouse_try c clock)
       (\<lambda>e. Inr (get_empty_stats m clock))"

text \<open>
  The \<^verbatim>\<open>try\<close> block of \<^verbatim>\<open>_get_current_stats_postgres\<close> in two parts, because the dictionary
  reads the clock for its third entry (\<^verbatim>\<open>uptime_hours\<close>): the statements up to that reading
  (open the session, the two queries, the first two entries), and the conversions of the
  entries after it. When the second part raises, the handler reads the clock after that
  reading.
\<close>

definition get_current_stats_postgres_try1 ::
  "error + postgres_session \<Rightarrow> error + (int \<times> pyfloat \<times> totals_row)" where
  "get_current_stats_postgres_try1 factory =
     bind_result factory (\<lambda>session.
     bind_result (pg_totals session) (\<lambda>result.
     bind_result (pg_tps session) (\<lambda>result2.
     bind_result (fetchone result) (\<lambda>(t0, t1, t2, t3).
     bind_result (py_int (or_zero t0)) (\<lambda>tokens.
     bind_result (fetchone result2) (\<lambda>tps0.
     bind_result (py_float (or_zero tps0)) (\<lambda>per_sec.
       Inr (tokens, per_sec, (t0, t1, t2, t3)))))))))"

definition get_current_stats_postgres_try2 ::
  "totals_row \<Rightarrow> error + (int \<times> int \<times> pyfloat)" where
  "get_current_stats_postgres_try2 totals =
     (case totals of (t0, t1, t2, t3) \<Rightarrow>
        bind_result (py_int (or_zero t1)) (\<lambda>errors.
        bind_result (py_int (or_zero t2)) (\<lambda>requests.
        bind_result (py_float (or_zero t3)) (\<lambda>latency.
          Inr (errors, requests, latency)))))"

definition get_current_stats_postgres ::
  "DatabaseManager \<Rightarrow> error + postgres_session \<Rightarrow> (nat \<Rightarrow> real) \<Rightarrow> error + stats" where
  "get_current_stats_postgres m factory clock =
     (case get_current_stats_postgres_try1 factory of
        Inl e \<Rightarrow> Inr (get_empty_stats m clock)
      | Inr (tokens, per_sec, totals) \<Rightarrow>
          (case get_current_stats_postgres_try2 totals of
             Inl e \<Rightarrow> Inr (get_empty_stats m (later clock))
           | Inr (errors, requests, latency) \<Rightarrow>
               Inr \<lparr>tokens_total = tokens, tokens_per_sec = per_sec,
                    uptime_hours = Finite (uptime_seconds m (clock 0) / 3600),
                    error_count = errors, request_count = requests,
                    avg_latency_ms = latency, models_available = 0,
                    timestamp = clock 1\<rparr>))"

definition get_current_stats :: "DatabaseManager \<Rightarrow> (nat \<Rightarrow> real) \<Rightarrow> error + stats" where
  "get_current_stats m clock =
     (case use_clickhouse m of
        Some c \<Rightarrow> get_current_stats_clickhouse m c clock
      | None \<Rightarrow>
          (case postgres_session_factory m of
             Some factory \<Rightarrow> get_current_stats_postgres m factory clock
           | None \<Rightarrow> Inr (get_empty_stats m clock)))"

subsection \<open>History\<close>

text \<open>The two dictionaries of \<^verbatim>\<open>get_history\<close> with their defaults (\<^verbatim>\<open>dict.get(key, 1)\<close>).\<close>

definition range_map :: "string \<Rightarrow> int" where
  "range_map time_range =
     (if time_range = ''1h'' then 1 else if time_range = ''6h'' then 6
      else if time_range = ''24h'' then 24 else 1)"

definition granularity_map :: "string \<Rightarrow> int" where
  "granularity_map granularity =
     (if granularity = ''1m'' then 1 else if granularity = ''5m'' then 5
      else if granularity = ''1h'' then 60 else 1)"

text \<open>
  The dictionary built from one row of the history query, in both adapters; a conversion
  that raises ends the list comprehension.
\<close>

fun history_point_of_row :: "history_row \<Rightarrow> error + history_point" where
  "history_point_of_row (r0, r1, r2, r3, r4) =
     bind_result (py_int (or_zero r1)) (\<lambda>tokens.
     bind_result (py_float (or_zero r2)) (\<lambda>latency.
     bind_result (py_float (or_zero r3)) (\<lambda>throughput.
     bind_result (py_int (or_zero r4)) (\<lambda>errors.
       Inr \<lparr>hp_timestamp = r0, hp_tokens_total = tokens, hp_latency_ms = latency,
            hp_throughput = throughput, hp_error_count = errors\<rparr>))))"

text \<open>The \<^verbatim>\<open>try\<close> blocks of \<^verbatim>\<open>_get_history_clickhouse\<close> and \<^verbatim>\<open>_get_history_postgres\<close>.\<close>

definition get_history_clickhouse_try ::
  "clickhouse_client \<Rightarrow> int \<Rightarrow> int \<Rightarrow> error + history_point list" where
  "get_history_clickhouse_try c hours granularity_minutes =
     bind_result (ch_history c hours granularity_minutes) (\<lambda>rows.
       map_result history_point_of_row rows)"

definition get_history_clickhouse ::
  "clickhouse_client \<Rightarrow> int \<Rightarrow> int \<Rightarrow> error + history_point list" where
  "get_history_clickhouse c hours granularity_minutes =
     try_except (get_history_clickhouse_try c hours granularity_minutes) (\<lambda>e. Inr [])"

definition get_history_postgres_try ::
  "error + postgres_session \<Rightarrow> int \<Rightarrow> int \<Rightarrow> error + history_point list" where
  "get_history_postgres_try factory hours granularity_minutes =
     bind_result factory (\<lambda>session.
     bind_result (pg_history session hours granularity_minutes) (\<lambda>rows.
       map_result history_point_of_row rows))"

definition get_history_postgres ::
  "error + postgres_session \<Rightarrow> int \<Rightarrow> int \<Rightarrow> error + history_point list" where
  "get_history_postgres factory hours granularity_minutes =
     try_except (get_history_postgres_try factory hours granularity_minutes) (\<lambda>e. Inr [])"

definition get_history ::
  "DatabaseManager \<Rightarrow> string \<Rightarrow> string \<Rightarrow> error + history_point list" where
  "get_history m time_range granularity =
     (let hours = range_map time_range;
          minutes = granularity_map granularity
      in case use_clickhouse m of
           Some c \<Rightarrow> get_history_clickhouse c hours minutes
         | None \<Rightarrow>
             (case postgres_session_factory m of
                Some factory \<Rightarrow> get_history_postgres factory hours minutes
              | None \<Rightarrow> Inr []))"

subsection \<open>Logs\<close>

text \<open>
  \<^verbatim>\<open>if status:\<close> and \<^verbatim>\<open>if model:\<close>: a filter is part of the query when it is neither \<^verbatim>\<open>None\<close>
  nor the empty string.
\<close>

definition filter_set :: "string option \<Rightarrow> string option" where
  "filter_set f = (case f of None \<Rightarrow> None | Some v \<Rightarrow> if v = [] then None else Some v)"

fun log_entry_of_row :: "log_row \<Rightarrow> log_entry" where
  "log_entry_of_row (r0, r1, r2, r3, r4, r5, r6) =
     \<lparr>log_request_id = r0, log_timestamp = r1, log_model = r2, log_tokens = r3,
      log_latency = r4, log_status = r5, log_error_message = r6\<rparr>"

definition empty_logs :: logs_page where
  "empty_logs = \<lparr>total = 0, logs = []\<rparr>"

text \<open>The \<^verbatim>\<open>try\<close> blocks of \<^verbatim>\<open>_get_logs_clickhouse\<close> and \<^verbatim>\<open>_get_logs_postgres\<close>.\<close>

definition get_logs_clickhouse_try ::
  "clickhouse_client \<Rightarrow> int \<Rightarrow> int \<Rightarrow> string option \<Rightarrow> string option \<Rightarrow> error + logs_page" where
  "get_logs_clickhouse_try c limit offset status model =
     bind_result (ch_count c (filter_set status) (filter_set model)) (\<lambda>counted.
     bind_result (subscript0 counted) (\<lambda>n.
     bind_result (ch_logs c (filter_set status) (filter_set model) limit offset) (\<lambda>rows.
       Inr \<lparr>total = n, logs = map log_entry_of_row rows\<rparr>)))"

definition get_logs_clickhouse ::
  "clickhouse_client \<Rightarrow> int \<Rightarrow> int \<Rightarrow> string option \<Rightarrow> string option \<Rightarrow> error + logs_page" where
  "get_logs_clickhouse c limit offset status model =
     try_except (get_logs_clickhouse_try c limit offset status model) (\<lambda>e. Inr empty_logs)"

definition get_logs_postgres_try ::
  "error + postgres_session \<Rightarrow> int \<Rightarrow> int \<Rightarrow> string option \<Rightarrow> string option \<Rightarrow>
   error + logs_page" where
  "get_logs_postgres_try factory limit offset status model =
     bind_result factory (\<lambda>session.
     bind_result (pg_count session (filter_set status) (filter_set model)) (\<lambda>result.
     bind_result (pg_logs session (filter_set status) (filter_set model) limit offset)
       (\<lambda>rows.
       Inr \<lparr>total = (case scalar result of None \<Rightarrow> 0 | Some n \<Rightarrow> n),
            logs = map log_entry_of_row rows\<rparr>)))"

definition get_logs_postgres ::
  "error + postgres_session \<Rightarrow> int \<Rightarrow> int \<Rightarrow> string option \<Rightarrow> string option \<Rightarrow>
   error + logs_page" where
  "get_logs_postgres factory limit offset status model =
     try_except (get_logs_postgres_try factory limit offset status model)
       (\<lambda>e. Inr empty_logs)"

definition get_logs ::
  "DatabaseManager \<Rightarrow> int \<Rightarrow> int \<Rightarrow> string option \<Rightarrow> string option \<Rightarrow> error + logs_page" where
  "get_logs m limit offset status model =
     (case use_clickhouse m of
        Some c \<Rightarrow> get_logs_clickhouse c limit offset status model
      | None \<Rightarrow>
          (case postgres_session_factory m of
             Some factory \<Rightarrow> get_logs_postgres factory limit offset status model
           | None \<Rightarrow> Inr empty_logs))"

subsection \<open>Model stats\<close>

fun model_stats_of_row :: "model_row \<Rightarrow> error + model_stats" where
  "model_stats_of_row (r0, r1, r2, r3, r4, r5) =
     bind_result (py_float (or_zero r3)) (\<lambda>latency.
       Inr \<lparr>ms_model_name = r0, ms_requests_count = r1, ms_tokens_generated = r2,
            ms_avg_latency_ms = latency, ms_error_count = r4, ms_last_used = r5\<rparr>)"

text \<open>The \<^verbatim>\<open>try\<close> blocks of \<^verbatim>\<open>_get_model_stats_clickhouse\<close> and \<^verbatim>\<open>_get_model_stats_postgres\<close>.\<close>

definition get_model_stats_clickhouse_try :: "clickhouse_client \<Rightarrow> error + model_stats list" where
  "get_model_stats_clickhouse_try c =
     bind_result (ch_model_stats c) (\<lambda>rows. map_result model_stats_of_row rows)"

definition get_model_stats_clickhouse :: "clickhouse_client \<Rightarrow> error + model_stats list" where
  "get_model_stats_clickhouse c =
     try_except (get_model_stats_clickhouse_try c) (\<lambda>e. Inr [])"

definition get_model_stats_postgres_try ::
  "error + postgres_session \<Rightarrow> error + model_stats list" where
  "get_model_stats_postgres_try factory =
     bind_result factory (\<lambda>session.
     bind_result (pg_model_stats session) (\<lambda>rows. map_result model_stats_of_row rows))"

definition get_model_stats_postgres ::
  "error + postgres_session \<Rightarrow> error + model_stats list" where
  "get_model_stats_postgres factory =
     try_except (get_model_stats_postgres_try factory) (\<lambda>e. Inr [])"

definition get_model_stats :: "DatabaseManager \<Rightarrow> error + model_stats list" where
  "get_model_stats m =
     (case use_clickhouse m of
        Some c \<Rightarrow> get_model_stats_clickhouse c
      | None \<Rightarrow>
          (case postgres_session_factory m of
             Some factory \<Rightarrow> get_model_stats_postgres factory
           | None \<Rightarrow> Inr []))"

subsection \<open>The history queries\<close>

text \<open>
  A row of the table \<^verbatim>\<open>ollama_metrics\<close>, as far as the history queries read it. The timestamp
  is in whole seconds since the epoch, in UTC.
\<close>

record metric =
  metric_timestamp :: int
  metric_name :: string
  metric_value :: real

text \<open>
  \<^verbatim>\<open>toStartOfInterval(timestamp, INTERVAL n MINUTE)\<close> of the ClickHouse query and
  \<^verbatim>\<open>date_trunc('minute', timestamp)\<close> of the Postgres query.
\<close>

definition toStartOfInterval :: "int \<Rightarrow> int \<Rightarrow> int" where
  "toStartOfInterval t granularity_minutes = t - t mod (60 * granularity_minutes)"

definition date_trunc_minute :: "int \<Rightarrow> int" where
  "date_trunc_minute t = t - t mod 60"

text \<open>
  The aggregates of the select list over the rows of one group:
  \<^verbatim>\<open>sum(CASE WHEN metric_name = n THEN metric_value ELSE 0 END)\<close>,
  \<^verbatim>\<open>avg(CASE WHEN metric_name = n THEN metric_value ELSE NULL END)\<close>, which is NULL when no
  row has the name, and \<^verbatim>\<open>count(CASE WHEN metric_name = n THEN 1 ELSE NULL END)\<close>.
\<close>

definition sum_case :: "string \<Rightarrow> metric list \<Rightarrow> real" where
  "sum_case n rows = sum_list (map (\<lambda>r. if metric_name r = n then metric_value r else 0) rows)"

definition avg_case :: "string \<Rightarrow> metric list \<Rightarrow> number option" where
  "avg_case n rows =
     (let vs = map metric_value (filter (\<lambda>r. metric_name r = n) rows)
      in if vs = [] then None else Some (FloatN (Finite (sum_list vs / of_nat (length vs)))))"

definition count_case :: "string \<Rightarrow> metric list \<Rightarrow> nat" where
  "count_case n rows = length (filter (\<lambda>r. metric_name r = n) rows)"

text \<open>
  The history query on a table at server time \<open>now\<close>, with \<open>bucket\<close> the expression
  selected as \<^verbatim>\<open>time_bucket\<close>: the rows with \<^verbatim>\<open>timestamp >= now() - INTERVAL hours HOUR\<close>,
  grouped by \<^verbatim>\<open>time_bucket\<close>, one result row per group with the four aggregates, ordered by
  \<^verbatim>\<open>time_bucket DESC\<close>.
\<close>

definition history_query ::
  "(int \<Rightarrow> int) \<Rightarrow> int \<Rightarrow> metric list \<Rightarrow> int \<Rightarrow> int \<Rightarrow> history_row list" where
  "history_query bucket now table hours granularity_minutes =
     (let selected = filter (\<lambda>r. now - 3600 * hours \<le> metric_timestamp r) table;
          buckets = rev (sort (remdups (map (\<lambda>r. bucket (metric_timestamp r)) selected)))
      in map (\<lambda>b.
           (let grp = filter (\<lambda>r. bucket (metric_timestamp r) = b) selected
            in (b,
                Some (FloatN (Finite (sum_case ''ollama_tokens_generated_total'' grp))),
                avg_case ''ollama_request_latency_ms'' grp,
                Some (FloatN (Finite (of_nat (count_case ''ollama_requests_total'' grp)
                                       / of_int granularity_minutes))),
                Some (FloatN (Finite (sum_case ''ollama_errors_total'' grp))))))
         buckets)"

definition clickhouse_history_query ::
  "int \<Rightarrow> metric list \<Rightarrow> int \<Rightarrow> int \<Rightarrow> history_row list" where
  "clickhouse_history_query now table hours granularity_minutes =
     history_query (\<lambda>t. toStartOfInterval t granularity_minutes) now table hours
       granularity_minutes"

text \<open>
  The Postgres query wraps its sums and its average in \<^verbatim>\<open>COALESCE(..., 0)\<close>; the count is
  not wrapped.
\<close>

fun coalesce0 :: "number option \<Rightarrow> number option" where
  "coalesce0 None = Some (IntN 0)"
| "coalesce0 (Some v) = Some v"

definition postgres_history_query ::
  "int \<Rightarrow> metric list \<Rightarrow> int \<Rightarrow> int \<Rightarrow> history_row list" where
  "postgres_history_query now table hours granularity_minutes =
     map (\<lambda>(b, tokens, latency, throughput, errors).
            (b, coalesce0 tokens, coalesce0 latency, throughput, coalesce0 errors))
       (history_query date_trunc_minute now table hours granularity_minutes)"

subsection \<open>Concrete backends\<close>

text \<open>
  Concrete inputs. A ClickHouse client and a Postgres session whose server holds a table of
  metrics and answers the history query at server time \<open>now\<close> (their other queries fail),
  a client on which every query fails, and managers connected to a client or holding a
  session factory.
\<close>

definition clickhouse_server :: "int \<Rightarrow> metric list \<Rightarrow> clickhouse_client" where
  "clickhouse_server now table =
     \<lparr>ch_totals = Inl BackendError, ch_tps = Inl BackendError, ch_uptime = Inl BackendError,
      ch_history = (\<lambda>hours minutes. Inr (clickhouse_history_query now table hours minutes)),
      ch_count = (\<lambda>status model. Inl BackendError),
      ch_logs = (\<lambda>status model limit offset. Inl BackendError),
      ch_model_stats = Inl BackendError\<rparr>"

definition postgres_server :: "int \<Rightarrow> metric list \<Rightarrow> postgres_session" where
  "postgres_server now table =
     \<lparr>pg_totals = Inl BackendError, pg_tps = Inl BackendError,
      pg_history = (\<lambda>hours minutes. Inr (postgres_history_query now table hours minutes)),
      pg_count = (\<lambda>status model. Inl BackendError),
      pg_logs = (\<lambda>status model limit offset. Inl BackendError),
      pg_model_stats = Inl BackendError\<rparr>"

definition broken_clickhouse :: clickhouse_client where
  "broken_clickhouse =
     \<lparr>ch_totals = Inl BackendError, ch_tps = Inl BackendError, ch_uptime = Inl BackendError,
      ch_history = (\<lambda>hours minutes. Inl BackendError),
      ch_count = (\<lambda>status model. Inl BackendError),
      ch_logs = (\<lambda>status model limit offset. Inl BackendError),
      ch_model_stats = Inl BackendError\<rparr>"

definition clickhouse_manager :: "clickhouse_client \<Rightarrow> DatabaseManager" where
  "clickhouse_manager c =
     \<lparr>exporter_type = ''clickhouse'', clickhouse_client = Some c,
      postgres_session_factory = None, connected = True, start_time = 1000\<rparr>"

definition postgres_manager :: "error + postgres_session \<Rightarrow> DatabaseManager" where
  "postgres_manager factory =
     \<lparr>exporter_type = ''postgres'', clickhouse_client = None,
      postgres_session_factory = Some factory, connected = True, start_time = 1000\<rparr>"

text \<open>
  Nine metrics. At server time 45000 (12:30:00 of the first day) the 6 hour window starts
  at 23400 (06:30:00); the first row is older, the last two lie in the same hour.
\<close>

definition sample_metrics :: "metric list" where
  "sample_metrics =
     [\<lparr>metric_timestamp = 20000, metric_name = ''ollama_requests_total'', metric_value = 1\<rparr>,
      \<lparr>metric_timestamp = 24010, metric_name = ''ollama_requests_total'', metric_value = 1\<rparr>,
      \<lparr>metric_timestamp = 27020, metric_name = ''ollama_tokens_generated_total'', metric_value = 40\<rparr>,
      \<lparr>metric_timestamp = 30630, metric_name = ''ollama_request_latency_ms'', metric_value = 12\<rparr>,
      \<lparr>metric_timestamp = 34240, metric_name = ''ollama_requests_total'', metric_value = 1\<rparr>,
      \<lparr>metric_timestamp = 37850, metric_name = ''ollama_errors_total'', metric_value = 1\<rparr>,
      \<lparr>metric_timestamp = 41400, metric_name = ''ollama_requests_total'', metric_value = 1\<rparr>,
      \<lparr>metric_timestamp = 43270, metric_name = ''ollama_tokens_generated_total'', metric_value = 7\<rparr>,
      \<lparr>metric_timestamp = 43325, metric_name = ''ollama_requests_total'', metric_value = 1\<rparr>]"

text \<open>
  A ClickHouse client that answers every query, with values the conversions or the
  subscripts of the adapter refuse: an integer average beyond the floats, a NaN sum, a
  count without a row.
\<close>

definition odd_clickhouse :: clickhouse_client where
  "odd_clickhouse =
     \<lparr>ch_totals = Inr [(Some (IntN 5), None, None, Some (IntN (2 ^ 1024)))],
      ch_tps = Inr [None], ch_uptime = Inr [None],
      ch_history = (\<lambda>hours minutes. Inr [(43200, Some (FloatN NaN), None, None, None)]),
      ch_count = (\<lambda>status model. Inr []),
      ch_logs = (\<lambda>status model limit offset. Inr []),
      ch_model_stats = Inr [(Text ''llama3'', Num (IntN 1), Num (IntN 9),
                             Some (IntN (2 ^ 1024)), Num (IntN 0), Time 43200)]\<rparr>"

text \<open>
  A Postgres session whose totals row converts up to the reading of the clock and has a
  NaN sum of errors after it.
\<close>

definition odd_postgres :: postgres_session where
  "odd_postgres =
     \<lparr>pg_totals = Inr [(Some (IntN 5), Some (FloatN NaN), None, None)],
      pg_tps = Inr [None],
      pg_history = (\<lambda>hours minutes. Inr []),
      pg_count = (\<lambda>status model. Inr []),
      pg_logs = (\<lambda>status model limit offset. Inr []),
      pg_model_stats = Inr []\<rparr>"

subsection \<open>When the selected adapter raises\<close>

text \<open>
  For each of the four queries: some statement inside the \<^verbatim>\<open>try\<close> block of the adapter that
  the router selects raises, whatever the statement (opening the session, running a query,
  subscripting a result, converting a value) and whatever the exception.
\<close>

definition current_stats_raises :: "DatabaseManager \<Rightarrow> (nat \<Rightarrow> real) \<Rightarrow> bool" where
  "current_stats_raises m clock =
     (case use_clickhouse m of
        Some c \<Rightarrow> isl (get_current_stats_clickhouse_try c clock)
      | None \<Rightarrow>
          (case postgres_session_factory m of
             None \<Rightarrow> False
           | Some factory \<Rightarrow>
               (case get_current_stats_postgres_try1 factory of
                  Inl e \<Rightarrow> True
                | Inr (tokens, per_sec, totals) \<Rightarrow>
                    isl (get_current_stats_postgres_try2 totals))))"

definition history_raises :: "DatabaseManager \<Rightarrow> string \<Rightarrow> string \<Rightarrow> bool" where
  "history_raises m time_range granularity =
     (case use_clickhouse m of
        Some c \<Rightarrow>
          isl (get_history_clickhouse_try c (range_map time_range) (granularity_map granularity))
      | None \<Rightarrow>
          (case postgres_session_factory m of
             None \<Rightarrow> False
           | Some factory \<Rightarrow>
               isl (get_history_postgres_try factory (range_map time_range)
                      (granularity_map granularity))))"

definition logs_raises ::
  "DatabaseManager \<Rightarrow> int \<Rightarrow> int \<Rightarrow> string option \<Rightarrow> string option \<Rightarrow> bool" where
  "logs_raises m limit offset status model =
     (case use_clickhouse m of
        Some c \<Rightarrow> isl (get_logs_clickhouse_try c limit offset status model)
      | None \<Rightarrow>
          (case postgres_session_factory m of
             None \<Rightarrow> False
           | Some factory \<Rightarrow> isl (get_logs_postgres_try factory limit offset status model)))"

definition model_stats_raises :: "DatabaseManager \<Rightarrow> bool" where
  "model_stats_raises m =
     (case use_clickhouse m of
        Some c \<Rightarrow> isl (get_model_stats_clickhouse_try c)
      | None \<Rightarrow>
          (case postgres_session_factory m of
             None \<Rightarrow> False
           | Some factory \<Rightarrow> isl (get_model_stats_postgres_try factory)))"

text \<open>
  A history row whose aggregates the conversions accept: NULL, a finite float, or an
  integer within the floats where \<^verbatim>\<open>float\<close> is applied.
\<close>

fun int_cell :: "number option \<Rightarrow> bool" where
  "int_cell None = True"
| "int_cell (Some (IntN i)) = True"
| "int_cell (Some (FloatN (Finite r))) = True"
| "int_cell (Some (FloatN f)) = False"

fun float_cell :: "number option \<Rightarrow> bool" where
  "float_cell None = True"
| "float_cell (Some (IntN i)) = (\<bar>of_int i\<bar> < float_overflow)"
| "float_cell (Some (FloatN f)) = True"

definition convertible :: "history_row \<Rightarrow> bool" where
  "convertible row =
     (case row of (r0, r1, r2, r3, r4) \<Rightarrow>
        int_cell r1 \<and> float_cell r2 \<and> float_cell r3 \<and> int_cell r4)"

section \<open>Properties of the Connection Config\<close>

text \<open>
  C8. On integer inputs the construction of a Connection Config succeeds exactly when
  1 \<le> port \<le> 65535, timeout > 0 and max_retries \<ge> 0, and raises the validation error
  (\<^verbatim>\<open>ValueError\<close>) otherwise.
\<close>

theorem NetworkConfig_init_valid_iff:
  "NetworkConfig_init h (IntV p) (IntV t) (IntV r) =
     (if 1 \<le> p \<and> p \<le> 65535 \<and> 0 < t \<and> 0 \<le> r
      then Inr \<lparr>host = h, port = p, timeout = t, max_retries = r\<rparr>
      else Inl ValueError)"
  by (simp add: NetworkConfig_init_def)

theorem NetworkConfig_init_valid_iff_witness:
  "NetworkConfig_init ''localhost'' (IntV 1) (IntV 30) (IntV 3)
     = Inr \<lparr>host = ''localhost'', port = 1, timeout = 30, max_retries = 3\<rparr>
   \<and> NetworkConfig_init ''localhost'' (IntV 65535) (IntV 30) (IntV 0)
     = Inr \<lparr>host = ''localhost'', port = 65535, timeout = 30, max_retries = 0\<rparr>
   \<and> NetworkConfig_init ''localhost'' (IntV 0) (IntV 30) (IntV 3) = Inl ValueError
   \<and> NetworkConfig_init ''localhost'' (IntV 65536) (IntV 30) (IntV 3) = Inl ValueError
   \<and> NetworkConfig_init ''localhost'' (IntV (- 1)) (IntV 30) (IntV 3) = Inl ValueError"
  using NetworkConfig_init_valid_iff [of "''localhost''" 1 30 3]
    NetworkConfig_init_valid_iff [of "''localhost''" 65535 30 0]
    NetworkConfig_init_valid_iff [of "''localhost''" 0 30 3]
    NetworkConfig_init_valid_iff [of "''localhost''" 65536 30 3]
    NetworkConfig_init_valid_iff [of "''localhost''" "- 1" 30 3]
  by simp

section \<open>Properties of the availability prober\<close>

lemma hc_loop_result:
  "fst (hc_loop probe mr xs) = Inr True \<or> fst (hc_loop probe mr xs) = Inl ConnectionError
   \<or> fst (hc_loop probe mr xs) = Inl HealthCheckError"
  by (induction xs) (auto split: probe_outcome.splits simp: case_prod_beta)











text \<open>
  C10. For every retry budget and every prober, \<^verbatim>\<open>health_check\<close> never returns \<^verbatim>\<open>False\<close>: it
  returns \<^verbatim>\<open>True\<close> or raises \<^verbatim>\<open>ConnectionError\<close> or \<^verbatim>\<open>HealthCheckError\<close>.
\<close>

theorem health_check_never_False:
  "fst (health_check cfg retries probe) \<noteq> Inr False
   \<and> (fst (health_check cfg retries probe) = Inr True
      \<or> fst (health_check cfg retries probe) = Inl ConnectionError
      \<or> fst (health_check cfg retries probe) = Inl HealthCheckError)"
  using hc_loop_result [of probe "case retries of Some r \<Rightarrow> r | None \<Rightarrow> max_retries cfg"
      "[0..case retries of Some r \<Rightarrow> r | None \<Rightarrow> max_retries cfg]"]
  by (auto simp: health_check_def Let_def)




section \<open>Properties of the process supervisor\<close>

text \<open>
  C7. \<^verbatim>\<open>start\<close> on a supervisor that is already running returns without an error, leaves the
  whole supervisor (state and process handle) unchanged, and does nothing but log a warning:
  no process is spawned.
\<close>

theorem start_running_noop:
  "is_running s \<Longrightarrow> start s startup_delay w = (Inr (), s, [LogWarning])"
  by (simp add: start_def)

text \<open>C7 on the supervisor that runs process 4242.\<close>

theorem start_running_noop_witness:
  "is_running running_service \<and> start running_service 2 os_unhealthy = (Inr (), running_service, [LogWarning])"
  using start_running_noop [of running_service 2 os_unhealthy]
  by (simp add: running_service_def)

text \<open>
  C1 as stated fails: when the termination signal cannot be delivered, \<^verbatim>\<open>stop\<close> raises
  \<^verbatim>\<open>ServiceStopError\<close> and the supervisor still holds its handle and still reports running.
\<close>

theorem stop_failure_counterexample:
  "is_running running_service \<and> process running_service = Some 4242
   \<and> stop_sequence_raises os_process_gone
   \<and> fst (stop running_service 5 os_process_gone) = Inl ServiceStopError
   \<and> process (fst (snd (stop running_service 5 os_process_gone))) = Some 4242
   \<and> is_running (fst (snd (stop running_service 5 os_process_gone)))"
  by (simp add: stop_def running_service_def os_process_gone_def stop_sequence_raises_def)

text \<open>
  C1, amended. When \<^verbatim>\<open>stop\<close> is called on a running supervisor and the signalling and wait
  sequence raises, \<^verbatim>\<open>stop\<close> surfaces \<^verbatim>\<open>ServiceStopError\<close> and leaves the supervisor as it was:
  the process handle is kept and the supervisor still reports running.
\<close>

theorem stop_failure_keeps_state:
  assumes "is_running s" and "process s = Some p" and "stop_sequence_raises w"
  shows "fst (stop s stop_timeout w) = Inl ServiceStopError
     \<and> fst (snd (stop s stop_timeout w)) = s"
  using assms by (auto simp: stop_def stop_sequence_raises_def split: wait_outcome.splits)

text \<open>C1, amended, when the process is already gone.\<close>

theorem stop_failure_keeps_state_witness:
  "is_running running_service \<and> process running_service = Some 4242
   \<and> stop_sequence_raises os_process_gone
   \<and> fst (stop running_service 5 os_process_gone) = Inl ServiceStopError
   \<and> fst (snd (stop running_service 5 os_process_gone)) = running_service"
proof -
  have a: "is_running running_service" by (simp add: running_service_def)
  have b: "process running_service = Some 4242" by (simp add: running_service_def)
  have c: "stop_sequence_raises os_process_gone"
    by (simp add: stop_sequence_raises_def os_process_gone_def)
  show ?thesis using a b c stop_failure_keeps_state [OF a b c, of 5] by simp
qed

text \<open>
  C2 as stated fails for \<^verbatim>\<open>ConnectionError\<close>: with a live process and a prober that fails at
  connection level on every attempt, \<^verbatim>\<open>start\<close> raises \<^verbatim>\<open>ServiceStartError\<close> and the supervisor is
  not running.
\<close>

theorem start_connection_error_counterexample:
  "\<not> is_running (OllamaService_init None ''ollama'')
   \<and> popen os_unreachable = Spawned 4242 \<and> poll os_unreachable = None
   \<and> fst (health_check default_config None (http_get os_unreachable)) = Inl ConnectionError
   \<and> fst (start (OllamaService_init None ''ollama'') 2 os_unreachable) = Inl ServiceStartError
   \<and> \<not> is_running (fst (snd (start (OllamaService_init None ''ollama'') 2 os_unreachable)))"
  by (simp add: start_def start_failed_def OllamaService_init_def os_unreachable_def
      health_check_def default_config_def upto_rec1)

text \<open>
  C2, amended. With the spawned process alive, when the health probe run inside \<^verbatim>\<open>start\<close>
  fails with \<^verbatim>\<open>HealthCheckError\<close>, \<^verbatim>\<open>start\<close> absorbs the failure (it logs a warning and does not
  raise) and the supervisor is running with its handle; when the probe fails with
  \<^verbatim>\<open>ConnectionError\<close>, \<^verbatim>\<open>start\<close> kills the process, clears the handle and raises
  \<^verbatim>\<open>ServiceStartError\<close>, and the supervisor is not running.
\<close>

theorem start_probe_failure:
  assumes "\<not> is_running s" and "popen w = Spawned p" and "poll w = None"
  shows "(fst (health_check (config s) None (http_get w)) = Inl HealthCheckError \<longrightarrow>
            fst (start s startup_delay w) = Inr ()
            \<and> is_running (fst (snd (start s startup_delay w)))
            \<and> process (fst (snd (start s startup_delay w))) = Some p
            \<and> last (snd (snd (start s startup_delay w))) = LogWarning)
       \<and> (fst (health_check (config s) None (http_get w)) = Inl ConnectionError \<longrightarrow>
            fst (start s startup_delay w) = Inl ServiceStartError
            \<and> \<not> is_running (fst (snd (start s startup_delay w)))
            \<and> process (fst (snd (start s startup_delay w))) = None
            \<and> last (snd (snd (start s startup_delay w))) = Kill)"
  using assms
  by (cases "health_check (config s) None (http_get w)")
     (auto simp: start_def start_failed_def Let_def split: sum.splits error.splits)

text \<open>C2, amended, on a prober that answers 503 and on one that never connects.\<close>

theorem start_probe_failure_witness:
  "fst (health_check (config (OllamaService_init None ''ollama'')) None (http_get os_unhealthy))
      = Inl HealthCheckError
   \<and> fst (start (OllamaService_init None ''ollama'') 2 os_unhealthy) = Inr ()
   \<and> is_running (fst (snd (start (OllamaService_init None ''ollama'') 2 os_unhealthy)))
   \<and> fst (health_check (config (OllamaService_init None ''ollama'')) None (http_get os_unreachable))
      = Inl ConnectionError
   \<and> fst (start (OllamaService_init None ''ollama'') 2 os_unreachable) = Inl ServiceStartError
   \<and> \<not> is_running (fst (snd (start (OllamaService_init None ''ollama'') 2 os_unreachable)))"
proof -
  let ?s = "OllamaService_init None ''ollama''"
  have a: "\<not> is_running ?s" by (simp add: OllamaService_init_def)
  have b1: "popen os_unhealthy = Spawned 4242" and c1: "poll os_unhealthy = None"
    by (simp_all add: os_unhealthy_def)
  have b2: "popen os_unreachable = Spawned 4242" and c2: "poll os_unreachable = None"
    by (simp_all add: os_unreachable_def)
  have h1: "fst (health_check (config ?s) None (http_get os_unhealthy)) = Inl HealthCheckError"
    by (simp add: OllamaService_init_def os_unhealthy_def health_check_def default_config_def upto_rec1)
  have h2: "fst (health_check (config ?s) None (http_get os_unreachable)) = Inl ConnectionError"
    by (simp add: OllamaService_init_def os_unreachable_def health_check_def default_config_def upto_rec1)
  show ?thesis
    using h1 h2 start_probe_failure [OF a b1 c1, of 2] start_probe_failure [OF a b2 c2, of 2]
    by simp
qed

section \<open>Properties of the backend query router\<close>

lemma try_except_returns:
  "(\<And>e. \<exists>r. handler e = Inr r) \<Longrightarrow> \<exists>r. try_except body handler = Inr r"
  by (cases body) (auto simp: try_except_def)

lemma try_except_raises:
  "isl body \<Longrightarrow> try_except body (\<lambda>e. Inr v) = Inr v"
  by (cases body) (auto simp: try_except_def)

lemma get_current_stats_returns: "\<exists>r. get_current_stats m clock = Inr r"
  by (auto simp: get_current_stats_def get_current_stats_clickhouse_def
      get_current_stats_postgres_def intro!: try_except_returns
      split: option.splits sum.splits prod.splits)

lemma get_history_returns: "\<exists>r. get_history m tr g = Inr r"
  by (auto simp: get_history_def get_history_clickhouse_def get_history_postgres_def Let_def
      intro!: try_except_returns split: option.splits)

lemma get_logs_returns: "\<exists>r. get_logs m limit offset status model = Inr r"
  by (auto simp: get_logs_def get_logs_clickhouse_def get_logs_postgres_def
      intro!: try_except_returns split: option.splits)

lemma get_model_stats_returns: "\<exists>r. get_model_stats m = Inr r"
  by (auto simp: get_model_stats_def get_model_stats_clickhouse_def get_model_stats_postgres_def
      intro!: try_except_returns split: option.splits)

lemma get_current_stats_degrades:
  "current_stats_raises m clock \<Longrightarrow>
     get_current_stats m clock = Inr (get_empty_stats m clock)
     \<or> get_current_stats m clock = Inr (get_empty_stats m (later clock))"
  by (auto simp: current_stats_raises_def get_current_stats_def get_current_stats_clickhouse_def
      get_current_stats_postgres_def try_except_raises
      split: option.splits sum.splits prod.splits)

lemma get_history_degrades:
  "history_raises m tr g \<Longrightarrow> get_history m tr g = Inr []"
  by (auto simp: history_raises_def get_history_def get_history_clickhouse_def
      get_history_postgres_def try_except_raises Let_def split: option.splits)

lemma get_logs_degrades:
  "logs_raises m limit offset status model \<Longrightarrow> get_logs m limit offset status model = Inr empty_logs"
  by (auto simp: logs_raises_def get_logs_def get_logs_clickhouse_def
      get_logs_postgres_def try_except_raises split: option.splits)

lemma get_model_stats_degrades:
  "model_stats_raises m \<Longrightarrow> get_model_stats m = Inr []"
  by (auto simp: model_stats_raises_def get_model_stats_def get_model_stats_clickhouse_def
      get_model_stats_postgres_def try_except_raises split: option.splits)

lemma no_backend_results:
  assumes "clickhouse_client m = None" and "postgres_session_factory m = None"
  shows "get_current_stats m clock = Inr (get_empty_stats m clock)
    \<and> get_history m tr g = Inr []
    \<and> get_logs m limit offset status model = Inr empty_logs
    \<and> get_model_stats m = Inr []"
  using assms
  by (simp add: get_current_stats_def get_history_def get_logs_def get_model_stats_def
      use_clickhouse_def)

lemma float_overflow_pos: "0 < float_overflow"
proof -
  have "(2::real) ^ 970 < 2 ^ 1024" by (rule power_strict_increasing) simp_all
  then show ?thesis by (simp add: float_overflow_def)
qed

text \<open>
  C5. With no backend connected (no ClickHouse client and no Postgres session factory),
  \<^verbatim>\<open>get_current_stats\<close> returns without raising a snapshot whose numeric fields
  \<^verbatim>\<open>tokens_total\<close>, \<^verbatim>\<open>tokens_per_sec\<close>, \<^verbatim>\<open>error_count\<close>, \<^verbatim>\<open>request_count\<close>, \<^verbatim>\<open>avg_latency_ms\<close> and
  \<^verbatim>\<open>models_available\<close> are zero and whose \<^verbatim>\<open>uptime_hours\<close> is the time elapsed since the manager
  was created, in hours.
\<close>

theorem get_current_stats_no_backend:
  assumes "clickhouse_client m = None" and "postgres_session_factory m = None"
  shows "\<exists>st. get_current_stats m clock = Inr st
     \<and> tokens_total st = 0 \<and> tokens_per_sec st = Finite 0 \<and> error_count st = 0
     \<and> request_count st = 0 \<and> avg_latency_ms st = Finite 0 \<and> models_available st = 0
     \<and> uptime_hours st = Finite ((clock 0 - start_time m) / 3600)"
  using assms
  by (simp add: get_current_stats_def use_clickhouse_def get_empty_stats_def uptime_seconds_def)

text \<open>C5 on a manager created at second 1000 and asked at second 8200: two hours.\<close>

theorem get_current_stats_no_backend_witness:
  "clickhouse_client (DatabaseManager_init ''clickhouse'' 1000) = None
   \<and> postgres_session_factory (DatabaseManager_init ''clickhouse'' 1000) = None
   \<and> (\<exists>st. get_current_stats (DatabaseManager_init ''clickhouse'' 1000) (\<lambda>n. 8200 + real n) = Inr st
       \<and> tokens_total st = 0 \<and> tokens_per_sec st = Finite 0 \<and> error_count st = 0
       \<and> request_count st = 0 \<and> avg_latency_ms st = Finite 0 \<and> models_available st = 0
       \<and> uptime_hours st = Finite 2)"
proof -
  let ?m = "DatabaseManager_init ''clickhouse'' 1000"
  have a: "clickhouse_client ?m = None" and b: "postgres_session_factory ?m = None"
    by (simp_all add: DatabaseManager_init_def)
  have c: "start_time ?m = 1000" by (simp add: DatabaseManager_init_def)
  show ?thesis
    using a b get_current_stats_no_backend [OF a b, of "\<lambda>n. 8200 + real n"] unfolding c
    by simp
qed

text \<open>
  C6. Each of the four query operations returns and never raises, whatever the backend
  answers. When any statement in the \<^verbatim>\<open>try\<close> block of the selected adapter raises (opening
  the session, a query, a subscript, a conversion of a value), the operation returns the
  empty result, which is the result it returns when no backend is connected: the empty
  list for \<^verbatim>\<open>get_history\<close> and \<^verbatim>\<open>get_model_stats\<close>, the page with total 0 and no entries for
  \<^verbatim>\<open>get_logs\<close>, and for \<^verbatim>\<open>get_current_stats\<close> the zero snapshot of \<^verbatim>\<open>_get_empty_stats\<close>, taken
  at the clock as the handler finds it (after one reading when the Postgres adapter had
  read the clock before it raised).
\<close>

theorem query_failures_absorbed:
  "(\<exists>r. get_current_stats m clock = Inr r)
   \<and> (\<exists>r. get_history m time_range granularity = Inr r)
   \<and> (\<exists>r. get_logs m limit offset status model = Inr r)
   \<and> (\<exists>r. get_model_stats m = Inr r)
   \<and> (current_stats_raises m clock \<longrightarrow>
        get_current_stats m clock = Inr (get_empty_stats m clock)
        \<or> get_current_stats m clock = Inr (get_empty_stats m (later clock)))
   \<and> (history_raises m time_range granularity \<longrightarrow>
        get_history m time_range granularity = Inr [])
   \<and> (logs_raises m limit offset status model \<longrightarrow>
        get_logs m limit offset status model = Inr empty_logs)
   \<and> (model_stats_raises m \<longrightarrow> get_model_stats m = Inr [])
   \<and> (clickhouse_client m = None \<and> postgres_session_factory m = None \<longrightarrow>
        get_current_stats m clock = Inr (get_empty_stats m clock)
        \<and> get_history m time_range granularity = Inr []
        \<and> get_logs m limit offset status model = Inr empty_logs
        \<and> get_model_stats m = Inr [])"
  using get_current_stats_returns [of m clock] get_history_returns [of m time_range granularity]
    get_logs_returns [of m limit offset status model] get_model_stats_returns [of m]
    get_current_stats_degrades [of m clock] get_history_degrades [of m time_range granularity]
    get_logs_degrades [of m limit offset status model] get_model_stats_degrades [of m]
    no_backend_results [of m clock time_range granularity limit offset status model]
  by blast

text \<open>
  C6 on a ClickHouse client whose every query fails, on one whose values the conversions
  and subscripts refuse, on a Postgres session whose totals row has a NaN, and on a
  manager with no backend.
\<close>

theorem query_failures_absorbed_witness:
  "current_stats_raises (clickhouse_manager broken_clickhouse) (\<lambda>n. 4600)
   \<and> history_raises (clickhouse_manager broken_clickhouse) ''6h'' ''1h''
   \<and> logs_raises (clickhouse_manager broken_clickhouse) 100 0 None None
   \<and> model_stats_raises (clickhouse_manager broken_clickhouse)
   \<and> (get_current_stats (clickhouse_manager broken_clickhouse) (\<lambda>n. 4600)
         = Inr (get_empty_stats (clickhouse_manager broken_clickhouse) (\<lambda>n. 4600))
       \<or> get_current_stats (clickhouse_manager broken_clickhouse) (\<lambda>n. 4600)
         = Inr (get_empty_stats (clickhouse_manager broken_clickhouse) (later (\<lambda>n. 4600))))
   \<and> get_history (clickhouse_manager broken_clickhouse) ''6h'' ''1h'' = Inr []
   \<and> get_logs (clickhouse_manager broken_clickhouse) 100 0 None None = Inr empty_logs
   \<and> get_model_stats (clickhouse_manager broken_clickhouse) = Inr []
   \<and> current_stats_raises (clickhouse_manager odd_clickhouse) (\<lambda>n. 4600)
   \<and> history_raises (clickhouse_manager odd_clickhouse) ''6h'' ''1h''
   \<and> logs_raises (clickhouse_manager odd_clickhouse) 100 0 None None
   \<and> model_stats_raises (clickhouse_manager odd_clickhouse)
   \<and> (get_current_stats (clickhouse_manager odd_clickhouse) (\<lambda>n. 4600)
         = Inr (get_empty_stats (clickhouse_manager odd_clickhouse) (\<lambda>n. 4600))
       \<or> get_current_stats (clickhouse_manager odd_clickhouse) (\<lambda>n. 4600)
         = Inr (get_empty_stats (clickhouse_manager odd_clickhouse) (later (\<lambda>n. 4600))))
   \<and> get_history (clickhouse_manager odd_clickhouse) ''6h'' ''1h'' = Inr []
   \<and> get_logs (clickhouse_manager odd_clickhouse) 100 0 None None = Inr empty_logs
   \<and> get_model_stats (clickhouse_manager odd_clickhouse) = Inr []
   \<and> current_stats_raises (postgres_manager (Inr odd_postgres)) (\<lambda>n. 4600)
   \<and> (get_current_stats (postgres_manager (Inr odd_postgres)) (\<lambda>n. 4600)
         = Inr (get_empty_stats (postgres_manager (Inr odd_postgres)) (\<lambda>n. 4600))
       \<or> get_current_stats (postgres_manager (Inr odd_postgres)) (\<lambda>n. 4600)
         = Inr (get_empty_stats (postgres_manager (Inr odd_postgres)) (later (\<lambda>n. 4600))))
   \<and> clickhouse_client (DatabaseManager_init ''both'' 1000) = None
   \<and> postgres_session_factory (DatabaseManager_init ''both'' 1000) = None
   \<and> get_current_stats (DatabaseManager_init ''both'' 1000) (\<lambda>n. 4600)
       = Inr (get_empty_stats (DatabaseManager_init ''both'' 1000) (\<lambda>n. 4600))
   \<and> get_history (DatabaseManager_init ''both'' 1000) ''6h'' ''1h'' = Inr []
   \<and> get_logs (DatabaseManager_init ''both'' 1000) 100 0 None None = Inr empty_logs
   \<and> get_model_stats (DatabaseManager_init ''both'' 1000) = Inr []"
proof -
  let ?m = "clickhouse_manager broken_clickhouse"
  let ?o = "clickhouse_manager odd_clickhouse"
  let ?p = "postgres_manager (Inr odd_postgres)"
  let ?n = "DatabaseManager_init ''both'' 1000"
  have u: "use_clickhouse ?m = Some broken_clickhouse"
    by (simp add: use_clickhouse_def clickhouse_manager_def)
  have a: "current_stats_raises ?m (\<lambda>n. 4600)"
    unfolding current_stats_raises_def u
    by (simp add: get_current_stats_clickhouse_try_def bind_result_def broken_clickhouse_def)
  have b: "history_raises ?m ''6h'' ''1h''"
    unfolding history_raises_def u
    by (simp add: get_history_clickhouse_try_def bind_result_def broken_clickhouse_def)
  have c: "logs_raises ?m 100 0 None None"
    unfolding logs_raises_def u
    by (simp add: get_logs_clickhouse_try_def bind_result_def broken_clickhouse_def)
  have d: "model_stats_raises ?m"
    unfolding model_stats_raises_def u
    by (simp add: get_model_stats_clickhouse_try_def bind_result_def broken_clickhouse_def)
  have uo: "use_clickhouse ?o = Some odd_clickhouse"
    by (simp add: use_clickhouse_def clickhouse_manager_def)
  have ao: "current_stats_raises ?o (\<lambda>n. 4600)"
    unfolding current_stats_raises_def uo
    by (simp add: get_current_stats_clickhouse_try_def bind_result_def subscript0_def
        odd_clickhouse_def float_overflow_def)
  have bo: "history_raises ?o ''6h'' ''1h''"
    unfolding history_raises_def uo
    by (simp add: get_history_clickhouse_try_def bind_result_def odd_clickhouse_def)
  have co: "logs_raises ?o 100 0 None None"
    unfolding logs_raises_def uo
    by (simp add: get_logs_clickhouse_try_def bind_result_def subscript0_def odd_clickhouse_def)
  have do: "model_stats_raises ?o"
    unfolding model_stats_raises_def uo
    by (simp add: get_model_stats_clickhouse_try_def bind_result_def odd_clickhouse_def
        float_overflow_def)
  have e: "current_stats_raises ?p (\<lambda>n. 4600)"
    by (simp add: current_stats_raises_def use_clickhouse_def postgres_manager_def
        get_current_stats_postgres_try1_def get_current_stats_postgres_try2_def
        bind_result_def fetchone_def odd_postgres_def float_overflow_pos)
  have f: "clickhouse_client ?n = None" and g: "postgres_session_factory ?n = None"
    by (simp_all add: DatabaseManager_init_def)
  note qm = query_failures_absorbed [of ?m "\<lambda>n. 4600" "''6h''" "''1h''" 100 0 None None]
  note qo = query_failures_absorbed [of ?o "\<lambda>n. 4600" "''6h''" "''1h''" 100 0 None None]
  note qp = query_failures_absorbed [of ?p "\<lambda>n. 4600" "''6h''" "''1h''" 100 0 None None]
  note qn = query_failures_absorbed [of ?n "\<lambda>n. 4600" "''6h''" "''1h''" 100 0 None None]
  have m1: "get_current_stats ?m (\<lambda>n. 4600) = Inr (get_empty_stats ?m (\<lambda>n. 4600))
       \<or> get_current_stats ?m (\<lambda>n. 4600) = Inr (get_empty_stats ?m (later (\<lambda>n. 4600)))"
    using qm a by blast
  have m2: "get_history ?m ''6h'' ''1h'' = Inr []" using qm b by blast
  have m3: "get_logs ?m 100 0 None None = Inr empty_logs" using qm c by blast
  have m4: "get_model_stats ?m = Inr []" using qm d by blast
  have o1: "get_current_stats ?o (\<lambda>n. 4600) = Inr (get_empty_stats ?o (\<lambda>n. 4600))
       \<or> get_current_stats ?o (\<lambda>n. 4600) = Inr (get_empty_stats ?o (later (\<lambda>n. 4600)))"
    using qo ao by blast
  have o2: "get_history ?o ''6h'' ''1h'' = Inr []" using qo bo by blast
  have o3: "get_logs ?o 100 0 None None = Inr empty_logs" using qo co by blast
  have o4: "get_model_stats ?o = Inr []" using qo do by blast
  have p1: "get_current_stats ?p (\<lambda>n. 4600) = Inr (get_empty_stats ?p (\<lambda>n. 4600))
       \<or> get_current_stats ?p (\<lambda>n. 4600) = Inr (get_empty_stats ?p (later (\<lambda>n. 4600)))"
    using qp e by blast
  have n1: "get_current_stats ?n (\<lambda>n. 4600) = Inr (get_empty_stats ?n (\<lambda>n. 4600))
      \<and> get_history ?n ''6h'' ''1h'' = Inr []
      \<and> get_logs ?n 100 0 None None = Inr empty_logs
      \<and> get_model_stats ?n = Inr []"
    using qn f g by blast
  show ?thesis
    by (intro conjI a b c d m1 m2 m3 m4 ao bo co do o1 o2 o3 o4 e p1 f g
        n1 [THEN conjunct1] n1 [THEN conjunct2, THEN conjunct1]
        n1 [THEN conjunct2, THEN conjunct2, THEN conjunct1]
        n1 [THEN conjunct2, THEN conjunct2, THEN conjunct2])
qed

subsection \<open>History buckets\<close>

lemma history_query_buckets:
  "map fst (history_query bucket now table hours minutes) =
     rev (sort (remdups (map (\<lambda>r. bucket (metric_timestamp r))
       (filter (\<lambda>r. now - 3600 * hours \<le> metric_timestamp r) table))))"
  by (simp add: history_query_def Let_def comp_def)

text \<open>
  A row whose aggregates the conversions accept becomes a point with the row's bucket time,
  and so does a list of such rows.
\<close>

lemma py_int_cell: "int_cell c \<Longrightarrow> \<exists>v. py_int (or_zero c) = Inr v"
  by (induction c rule: int_cell.induct) auto

lemma py_float_cell:
  assumes "float_cell c"
  shows "\<exists>v. py_float (or_zero c) = Inr v"
proof (cases c)
  case None
  then show ?thesis using float_overflow_pos by simp
next
  case (Some n)
  show ?thesis
  proof (cases n)
    case (IntN i)
    with Some assms show ?thesis using float_overflow_pos by simp
  next
    case (FloatN f)
    with Some show ?thesis using float_overflow_pos by (cases f) auto
  qed
qed

lemma history_point_of_convertible:
  assumes "convertible row"
  shows "\<exists>p. history_point_of_row row = Inr p \<and> hp_timestamp p = fst row"
proof -
  obtain r0 r1 r2 r3 r4 where row: "row = (r0, r1, r2, r3, r4)" by (cases row)
  from assms row have cells: "int_cell r1" "float_cell r2" "float_cell r3" "int_cell r4"
    by (simp_all add: convertible_def)
  obtain a where a: "py_int (or_zero r1) = Inr a" using py_int_cell [OF cells(1)] by blast
  obtain b where b: "py_float (or_zero r2) = Inr b" using py_float_cell [OF cells(2)] by blast
  obtain c where c: "py_float (or_zero r3) = Inr c" using py_float_cell [OF cells(3)] by blast
  obtain d where d: "py_int (or_zero r4) = Inr d" using py_int_cell [OF cells(4)] by blast
  from a b c d show ?thesis unfolding row by (simp add: bind_result_def)
qed

lemma history_points_of_convertible:
  "list_all convertible rows \<Longrightarrow>
     \<exists>pts. map_result history_point_of_row rows = Inr pts \<and> map hp_timestamp pts = map fst rows"
proof (induction rows)
  case Nil
  show ?case by simp
next
  case (Cons row rows)
  then obtain pts where pts: "map_result history_point_of_row rows = Inr pts"
    "map hp_timestamp pts = map fst rows" by auto
  have "convertible row" using Cons.prems by simp
  then obtain p where p: "history_point_of_row row = Inr p" "hp_timestamp p = fst row"
    using history_point_of_convertible by blast
  show ?case using pts p by (simp add: bind_result_def)
qed

lemma avg_case_cell: "float_cell (avg_case n rows)"
  by (simp add: avg_case_def Let_def)

lemma history_query_convertible: "list_all convertible (history_query bucket now table hours minutes)"
  by (simp add: history_query_def Let_def list_all_iff convertible_def avg_case_cell)

lemma postgres_history_query_convertible:
  "list_all convertible (postgres_history_query now table hours minutes)"
proof -
  have c: "float_cell (coalesce0 x)" if "float_cell x" for x
    using that float_overflow_pos by (cases x) auto
  have i: "int_cell (coalesce0 x)" if "int_cell x" for x
    using that by (cases x) auto
  show ?thesis
    using history_query_convertible [of date_trunc_minute now table hours minutes]
    by (auto simp: postgres_history_query_def list_all_iff convertible_def c i)
qed

lemma newest_first: "sorted_wrt (\<lambda>a b. b < a) (rev (sort (remdups (xs :: int list))))"
proof -
  have "sorted_wrt (<) (sort (remdups xs))"
    by (simp add: strict_sorted_iff)
  then show ?thesis by (simp add: sorted_wrt_rev)
qed

lemma toStartOfInterval_div:
  "toStartOfInterval t g = (t div (60 * g)) * (60 * g)"
  by (simp add: toStartOfInterval_def minus_mod_eq_div_mult)

lemma bucket_count:
  fixes w :: int
  assumes w: "0 < w" and n: "0 \<le> n"
    and window: "\<forall>t \<in> set ts. now - n * w \<le> t \<and> t \<le> now"
  shows "length (remdups (map (\<lambda>t. (t div w) * w) ts)) \<le> nat n + 1"
proof -
  have sub: "set (map (\<lambda>t. (t div w) * w) ts) \<subseteq> (\<lambda>k. k * w) ` {now div w - n .. now div w}"
  proof
    fix x assume "x \<in> set (map (\<lambda>t. (t div w) * w) ts)"
    then obtain t where t: "t \<in> set ts" "x = (t div w) * w" by auto
    from window t have lo: "now - n * w \<le> t" and hi: "t \<le> now" by auto
    have "(now - n * w) div w \<le> t div w" using lo w by (intro zdiv_mono1) auto
    moreover have "(now - n * w) div w = now div w - n"
    proof -
      have "(now + (- n) * w) div w = now div w + (- n)"
        using w by (subst div_mult_self1) auto
      then show ?thesis by simp
    qed
    moreover have "t div w \<le> now div w" using hi w by (intro zdiv_mono1) auto
    ultimately show "x \<in> (\<lambda>k. k * w) ` {now div w - n .. now div w}" using t by auto
  qed
  have "length (remdups (map (\<lambda>t. (t div w) * w) ts)) = card (set (map (\<lambda>t. (t div w) * w) ts))"
    by (simp add: length_remdups_card_conv)
  also have "\<dots> \<le> card ((\<lambda>k. k * w) ` {now div w - n .. now div w})"
    using sub by (intro card_mono) auto
  also have "\<dots> \<le> card {now div w - n .. now div w}"
    by (intro card_image_le) auto
  also have "\<dots> = nat n + 1" using n by simp
  finally show ?thesis .
qed

lemma range_map_cases: "range_map tr = 1 \<or> range_map tr = 6 \<or> range_map tr = 24"
  by (simp add: range_map_def)

lemma granularity_map_cases: "granularity_map g = 1 \<or> granularity_map g = 5 \<or> granularity_map g = 60"
  by (simp add: granularity_map_def)

lemma window_width:
  "3600 * range_map tr = (60 * range_map tr div granularity_map g) * (60 * granularity_map g)
   \<and> 0 < granularity_map g \<and> 0 \<le> 60 * range_map tr div granularity_map g"
  using range_map_cases [of tr] granularity_map_cases [of g] by auto

lemma get_history_clickhouse_ok:
  assumes "use_clickhouse m = Some c"
    and "ch_history c (range_map tr) (granularity_map g) = Inr rows"
    and "list_all convertible rows"
  shows "\<exists>pts. get_history m tr g = Inr pts \<and> map hp_timestamp pts = map fst rows"
proof -
  from assms(3) obtain pts where
    "map_result history_point_of_row rows = Inr pts" "map hp_timestamp pts = map fst rows"
    using history_points_of_convertible by blast
  then show ?thesis
    using assms(1,2)
    by (simp add: get_history_def get_history_clickhouse_def get_history_clickhouse_try_def
        try_except_def bind_result_def)
qed

lemma get_history_postgres_ok:
  assumes "use_clickhouse m = None" and "postgres_session_factory m = Some (Inr session)"
    and "pg_history session (range_map tr) (granularity_map g) = Inr rows"
    and "list_all convertible rows"
  shows "\<exists>pts. get_history m tr g = Inr pts \<and> map hp_timestamp pts = map fst rows"
proof -
  from assms(4) obtain pts where
    "map_result history_point_of_row rows = Inr pts" "map hp_timestamp pts = map fst rows"
    using history_points_of_convertible by blast
  then show ?thesis
    using assms(1,2,3)
    by (simp add: get_history_def get_history_postgres_def get_history_postgres_try_def
        try_except_def bind_result_def)
qed

lemma postgres_history_buckets:
  "map fst (postgres_history_query now table hours minutes) =
     rev (sort (remdups (map (\<lambda>r. date_trunc_minute (metric_timestamp r))
       (filter (\<lambda>r. now - 3600 * hours \<le> metric_timestamp r) table))))"
proof -
  have "map fst (postgres_history_query now table hours minutes) =
        map fst (history_query date_trunc_minute now table hours minutes)"
    by (simp add: postgres_history_query_def comp_def case_prod_beta)
  then show ?thesis by (simp only: history_query_buckets)
qed

lemma sample_selected:
  "filter (\<lambda>r. 45000 - 3600 * 6 \<le> metric_timestamp r) sample_metrics = tl sample_metrics"
  by (simp add: sample_metrics_def)

text \<open>
  C4 as stated fails. For the range 6h and the granularity 1h at server time 12:30:00, the
  ClickHouse adapter returns seven buckets, 06:00 to 12:00, not at most six; on the same
  table the Postgres adapter returns eight buckets, truncated to the minute, two of them
  (12:01 and 12:02) in one hour.
\<close>

theorem get_history_buckets_counterexample:
  "map_sum id (map hp_timestamp)
     (get_history (clickhouse_manager (clickhouse_server 45000 sample_metrics)) ''6h'' ''1h'')
     = Inr [43200, 39600, 36000, 32400, 28800, 25200, 21600]
   \<and> map_sum id (map hp_timestamp)
     (get_history (postgres_manager (Inr (postgres_server 45000 sample_metrics))) ''6h'' ''1h'')
     = Inr [43320, 43260, 41400, 37800, 34200, 30600, 27000, 24000]"
proof -
  let ?c = "clickhouse_server 45000 sample_metrics"
  let ?s = "postgres_server 45000 sample_metrics"
  have r: "range_map ''6h'' = 6" and g: "granularity_map ''1h'' = 60"
    by (simp_all add: range_map_def granularity_map_def)
  have c1: "use_clickhouse (clickhouse_manager ?c) = Some ?c"
    by (simp add: use_clickhouse_def clickhouse_manager_def)
  have c2: "ch_history ?c (range_map ''6h'') (granularity_map ''1h'')
      = Inr (clickhouse_history_query 45000 sample_metrics 6 60)"
    by (simp add: clickhouse_server_def r g)
  have c3: "list_all convertible (clickhouse_history_query 45000 sample_metrics 6 60)"
    by (simp add: clickhouse_history_query_def history_query_convertible)
  have "\<exists>pts. get_history (clickhouse_manager ?c) ''6h'' ''1h'' = Inr pts
      \<and> map hp_timestamp pts = map fst (clickhouse_history_query 45000 sample_metrics 6 60)"
    using c1 c2 c3 by (rule get_history_clickhouse_ok)
  then obtain pts where ch: "get_history (clickhouse_manager ?c) ''6h'' ''1h'' = Inr pts"
    "map hp_timestamp pts = map fst (clickhouse_history_query 45000 sample_metrics 6 60)"
    by blast
  have p1: "use_clickhouse (postgres_manager (Inr ?s)) = None"
    and p2: "postgres_session_factory (postgres_manager (Inr ?s)) = Some (Inr ?s)"
    by (simp_all add: use_clickhouse_def postgres_manager_def)
  have p3: "pg_history ?s (range_map ''6h'') (granularity_map ''1h'')
      = Inr (postgres_history_query 45000 sample_metrics 6 60)"
    by (simp add: postgres_server_def r g)
  have p4: "list_all convertible (postgres_history_query 45000 sample_metrics 6 60)"
    by (rule postgres_history_query_convertible)
  have "\<exists>pts. get_history (postgres_manager (Inr ?s)) ''6h'' ''1h'' = Inr pts
      \<and> map hp_timestamp pts = map fst (postgres_history_query 45000 sample_metrics 6 60)"
    using p1 p2 p3 p4 by (rule get_history_postgres_ok)
  then obtain pts' where pg: "get_history (postgres_manager (Inr ?s)) ''6h'' ''1h'' = Inr pts'"
    "map hp_timestamp pts' = map fst (postgres_history_query 45000 sample_metrics 6 60)"
    by blast
  have cht: "map fst (clickhouse_history_query 45000 sample_metrics 6 60)
      = [43200, 39600, 36000, 32400, 28800, 25200, 21600]"
    unfolding clickhouse_history_query_def history_query_buckets sample_selected
    by (simp add: sample_metrics_def toStartOfInterval_def)
  have pgt: "map fst (postgres_history_query 45000 sample_metrics 6 60)
      = [43320, 43260, 41400, 37800, 34200, 30600, 27000, 24000]"
    unfolding postgres_history_buckets sample_selected
    by (simp add: sample_metrics_def date_trunc_minute_def)
  show ?thesis
    unfolding ch(1) pg(1) using ch(2) pg(2) by (simp add: cht pgt)
qed

text \<open>
  C4, amended. For every time range and granularity, on the ClickHouse adapter the history
  has one bucket for each distinct value of the timestamps inside the range truncated to
  the granularity width: every bucket timestamp is a multiple of the width, the timestamps
  are distinct and ordered newest-first, and when no row is stamped later than the server
  time there are at most (60 * hours) div minutes + 1 buckets; for the range 6h and the
  granularity 1h that is at most 7 buckets, each with a distinct hour-truncated timestamp.
\<close>

theorem get_history_clickhouse_buckets:
  assumes sel: "use_clickhouse m = Some c"
    and srv: "ch_history c (range_map time_range) (granularity_map granularity) =
      Inr (clickhouse_history_query now table (range_map time_range) (granularity_map granularity))"
  shows "\<exists>pts. get_history m time_range granularity = Inr pts
     \<and> set (map hp_timestamp pts) =
         (\<lambda>r. toStartOfInterval (metric_timestamp r) (granularity_map granularity)) `
           {r \<in> set table. now - 3600 * range_map time_range \<le> metric_timestamp r}
     \<and> list_all (\<lambda>p. hp_timestamp p mod (60 * granularity_map granularity) = 0) pts
     \<and> distinct (map hp_timestamp pts)
     \<and> sorted_wrt (\<lambda>a b. b < a) (map hp_timestamp pts)
     \<and> (list_all (\<lambda>r. metric_timestamp r \<le> now) table \<longrightarrow>
          length pts \<le> nat (60 * range_map time_range div granularity_map granularity) + 1)"
proof -
  let ?h = "range_map time_range" and ?g = "granularity_map granularity"
  let ?sel = "filter (\<lambda>r. now - 3600 * ?h \<le> metric_timestamp r) table"
  let ?ts = "rev (sort (remdups (map (\<lambda>r. toStartOfInterval (metric_timestamp r) ?g) ?sel)))"
  have "list_all convertible (clickhouse_history_query now table ?h ?g)"
    by (simp add: clickhouse_history_query_def history_query_convertible)
  with sel srv obtain pts where res: "get_history m time_range granularity = Inr pts"
    and fst: "map hp_timestamp pts = map fst (clickhouse_history_query now table ?h ?g)"
    using get_history_clickhouse_ok by blast
  have ts: "map hp_timestamp pts = ?ts"
    unfolding fst by (simp only: clickhouse_history_query_def history_query_buckets)
  have s: "set (map hp_timestamp pts) =
         (\<lambda>r. toStartOfInterval (metric_timestamp r) ?g) `
           {r \<in> set table. now - 3600 * ?h \<le> metric_timestamp r}"
    unfolding ts by auto
  have al: "list_all (\<lambda>p. hp_timestamp p mod (60 * ?g) = 0) pts"
  proof -
    have "\<forall>x \<in> set (map hp_timestamp pts). x mod (60 * ?g) = 0"
      unfolding s by (auto simp: toStartOfInterval_div)
    then show ?thesis by (simp add: list_all_iff)
  qed
  have d: "distinct (map hp_timestamp pts)" unfolding ts by simp
  have o: "sorted_wrt (\<lambda>a b. b < a) (map hp_timestamp pts)"
    unfolding ts by (rule newest_first)
  have b: "length pts \<le> nat (60 * ?h div ?g) + 1" if "list_all (\<lambda>r. metric_timestamp r \<le> now) table"
  proof -
    have ww: "3600 * ?h = (60 * ?h div ?g) * (60 * ?g)" and g0: "0 < 60 * ?g"
      and n0: "0 \<le> 60 * ?h div ?g"
      using window_width [of time_range granularity] by auto
    have win: "\<forall>t \<in> set (map metric_timestamp ?sel).
       now - (60 * ?h div ?g) * (60 * ?g) \<le> t \<and> t \<le> now"
      using that unfolding ww [symmetric] by (auto simp: list_all_iff)
    have "length pts = length (map hp_timestamp pts)" by simp
    also have "\<dots> = length (remdups (map (\<lambda>t. (t div (60 * ?g)) * (60 * ?g)) (map metric_timestamp ?sel)))"
      unfolding ts by (simp add: toStartOfInterval_div comp_def)
    also have "\<dots> \<le> nat (60 * ?h div ?g) + 1"
      using g0 n0 win by (rule bucket_count)
    finally show ?thesis .
  qed
  from res s al d o b show ?thesis by blast
qed

text \<open>C4, amended, for the range 6h and the granularity 1h: hours, at most 7 buckets.\<close>

theorem get_history_clickhouse_buckets_witness:
  "use_clickhouse (clickhouse_manager (clickhouse_server 45000 sample_metrics))
     = Some (clickhouse_server 45000 sample_metrics)
   \<and> list_all (\<lambda>r. metric_timestamp r \<le> 45000) sample_metrics
   \<and> (\<exists>pts. get_history (clickhouse_manager (clickhouse_server 45000 sample_metrics)) ''6h'' ''1h''
          = Inr pts
        \<and> list_all (\<lambda>p. hp_timestamp p mod 3600 = 0) pts
        \<and> distinct (map hp_timestamp pts)
        \<and> sorted_wrt (\<lambda>a b. b < a) (map hp_timestamp pts)
        \<and> length pts \<le> 7)"
proof -
  let ?c = "clickhouse_server 45000 sample_metrics"
  have a: "use_clickhouse (clickhouse_manager ?c) = Some ?c"
    by (simp add: use_clickhouse_def clickhouse_manager_def)
  have b: "ch_history ?c (range_map ''6h'') (granularity_map ''1h'') =
      Inr (clickhouse_history_query 45000 sample_metrics (range_map ''6h'') (granularity_map ''1h''))"
    by (simp add: clickhouse_server_def)
  have c: "list_all (\<lambda>r. metric_timestamp r \<le> 45000) sample_metrics"
    by (simp add: sample_metrics_def)
  have r: "range_map ''6h'' = 6" and g: "granularity_map ''1h'' = 60"
    by (simp_all add: range_map_def granularity_map_def)
  show ?thesis
    using a c get_history_clickhouse_buckets [OF a b] unfolding r g by auto
qed

end
